theory Spec2Isabelle
  imports Complex_Main
begin

section \<open>JavaScript numbers\<close>

text \<open>
  The program computes with JavaScript numbers: IEEE 754 binary64 values. A finite
  value is the real number it denotes; the two infinities and NaN are values of their
  own, because the program can produce them (a quantity such as \<open>1/0\<close>, a token such
  as a lone dot). The two zeros are one value \<open>Fin 0\<close>: the program never divides by a
  zero other than the result of parsing an unsigned token, and nothing else in it can
  tell the zeros apart.
\<close>

datatype jsnum = Fin real | PosInf | NegInf | NaN

definition pow2 :: "int \<Rightarrow> real" where
  "pow2 e = (if 0 \<le> e then 2 ^ nat e else 1 / 2 ^ nat (- e))"

fun ilog2 :: "nat \<Rightarrow> nat" where
  "ilog2 n = (if n < 2 then 0 else Suc (ilog2 (n div 2)))"

declare ilog2.simps [simp del]

text \<open>The binary exponent of a positive real: the \<open>e\<close> with \<open>2^e \<le> a < 2^(e+1)\<close>.\<close>

definition floor_log2 :: "real \<Rightarrow> int" where
  "floor_log2 a =
     (if 1 \<le> a then int (ilog2 (nat \<lfloor>a\<rfloor>))
      else (let k = int (ilog2 (nat \<lfloor>1 / a\<rfloor>))
            in if a = pow2 (- k) then - k else - k - 1))"

definition round_half_even :: "real \<Rightarrow> int" where
  "round_half_even x =
     (let f = \<lfloor>x\<rfloor>; r = x - of_int f
      in if r < 1 / 2 then f else if 1 / 2 < r then f + 1
         else if even f then f else f + 1)"

text \<open>
  Rounding a real to binary64, to nearest with ties to even: 53 significant bits, the
  unit in the last place no smaller than \<open>2^-1074\<close> (subnormals), and overflow to an
  infinity from \<open>2^1024\<close> on. Every arithmetic operation of the program is the exact
  operation followed by this rounding.
\<close>

definition fl :: "real \<Rightarrow> jsnum" where
  "fl x =
     (if x = 0 then Fin 0
      else (let a = \<bar>x\<bar>;
                q = max (floor_log2 a - 52) (- 1074);
                m = of_int (round_half_even (a / pow2 q)) * pow2 q
            in if pow2 1024 \<le> m then (if 0 < x then PosInf else NegInf)
               else Fin (if 0 < x then m else - m)))"

fun jsneg :: "jsnum \<Rightarrow> jsnum" where
  "jsneg (Fin a) = Fin (- a)"
| "jsneg PosInf = NegInf"
| "jsneg NegInf = PosInf"
| "jsneg NaN = NaN"

fun jsadd :: "jsnum \<Rightarrow> jsnum \<Rightarrow> jsnum" where
  "jsadd NaN y = NaN"
| "jsadd (Fin a) NaN = NaN"
| "jsadd PosInf NaN = NaN"
| "jsadd NegInf NaN = NaN"
| "jsadd (Fin a) (Fin b) = fl (a + b)"
| "jsadd (Fin a) PosInf = PosInf"
| "jsadd (Fin a) NegInf = NegInf"
| "jsadd PosInf (Fin b) = PosInf"
| "jsadd NegInf (Fin b) = NegInf"
| "jsadd PosInf PosInf = PosInf"
| "jsadd NegInf NegInf = NegInf"
| "jsadd PosInf NegInf = NaN"
| "jsadd NegInf PosInf = NaN"

fun jsmul :: "jsnum \<Rightarrow> jsnum \<Rightarrow> jsnum" where
  "jsmul NaN y = NaN"
| "jsmul (Fin a) NaN = NaN"
| "jsmul PosInf NaN = NaN"
| "jsmul NegInf NaN = NaN"
| "jsmul (Fin a) (Fin b) = fl (a * b)"
| "jsmul (Fin a) PosInf = (if a = 0 then NaN else if 0 < a then PosInf else NegInf)"
| "jsmul (Fin a) NegInf = (if a = 0 then NaN else if 0 < a then NegInf else PosInf)"
| "jsmul PosInf (Fin b) = (if b = 0 then NaN else if 0 < b then PosInf else NegInf)"
| "jsmul NegInf (Fin b) = (if b = 0 then NaN else if 0 < b then NegInf else PosInf)"
| "jsmul PosInf PosInf = PosInf"
| "jsmul NegInf NegInf = PosInf"
| "jsmul PosInf NegInf = NegInf"
| "jsmul NegInf PosInf = NegInf"

text \<open>Division; a zero divisor is \<open>+0\<close> (see above), so \<open>a / 0\<close> has the sign of \<open>a\<close>.\<close>

fun jsdiv :: "jsnum \<Rightarrow> jsnum \<Rightarrow> jsnum" where
  "jsdiv NaN y = NaN"
| "jsdiv (Fin a) NaN = NaN"
| "jsdiv PosInf NaN = NaN"
| "jsdiv NegInf NaN = NaN"
| "jsdiv (Fin a) (Fin b) =
     (if b = 0 then (if a = 0 then NaN else if 0 < a then PosInf else NegInf)
      else fl (a / b))"
| "jsdiv (Fin a) PosInf = Fin 0"
| "jsdiv (Fin a) NegInf = Fin 0"
| "jsdiv PosInf (Fin b) = (if 0 \<le> b then PosInf else NegInf)"
| "jsdiv NegInf (Fin b) = (if 0 \<le> b then NegInf else PosInf)"
| "jsdiv PosInf PosInf = NaN"
| "jsdiv NegInf NegInf = NaN"
| "jsdiv PosInf NegInf = NaN"
| "jsdiv NegInf PosInf = NaN"

text \<open>\<^verbatim>\<open>x || d\<close> on numbers: the falsy numbers are zero and NaN.\<close>

definition js_or :: "jsnum \<Rightarrow> jsnum \<Rightarrow> jsnum" where
  "js_or x d = (if x = NaN \<or> x = Fin 0 then d else x)"

text \<open>\<^verbatim>\<open>x <= 0\<close>; false when \<open>x\<close> is NaN.\<close>

fun js_le_zero :: "jsnum \<Rightarrow> bool" where
  "js_le_zero (Fin a) = (a \<le> 0)"
| "js_le_zero NegInf = True"
| "js_le_zero PosInf = False"
| "js_le_zero NaN = False"



fun isFinite :: "jsnum \<Rightarrow> bool" where
  "isFinite (Fin r) = True"
| "isFinite PosInf = False"
| "isFinite NegInf = False"
| "isFinite NaN = False"


section \<open>JavaScript strings\<close>

text \<open>
  A string is a list of code units; the model has the code units below 256 (Latin-1).
  White space there is TAB, LF, VT, FF, CR, SPACE and NO-BREAK SPACE, for
  \<^verbatim>\<open>trim\<close>, for \<^verbatim>\<open>\s\<close> and for the prefix \<^verbatim>\<open>parseFloat\<close> skips alike.
\<close>

definition isWhiteSpace :: "char \<Rightarrow> bool" where
  "isWhiteSpace c \<longleftrightarrow>
     c \<in> set [CHR 0x09, CHR 0x0A, CHR 0x0B, CHR 0x0C, CHR 0x0D, CHR '' '', CHR 0xA0]"

definition trim :: "string \<Rightarrow> string" where
  "trim s = rev (dropWhile isWhiteSpace (rev (dropWhile isWhiteSpace s)))"

definition lowerChar :: "char \<Rightarrow> char" where
  "lowerChar c =
     (let n = (of_char c :: nat)
      in if (65 \<le> n \<and> n \<le> 90) \<or> (192 \<le> n \<and> n \<le> 222 \<and> n \<noteq> 215)
         then char_of (n + 32) else c)"

definition toLowerCase :: "string \<Rightarrow> string" where
  "toLowerCase s = map lowerChar s"

definition isDigit :: "char \<Rightarrow> bool" where
  "isDigit c \<longleftrightarrow> c \<in> set ''0123456789''"

definition digitValue :: "char \<Rightarrow> nat" where
  "digitValue c = of_char c - 48"

definition decimal :: "string \<Rightarrow> nat" where
  "decimal ds = foldl (\<lambda>a c. 10 * a + digitValue c) 0 ds"

definition pow10 :: "int \<Rightarrow> real" where
  "pow10 e = (if 0 \<le> e then 10 ^ nat e else 1 / 10 ^ nat (- e))"

text \<open>
  \<^verbatim>\<open>parseFloat\<close> reads the longest prefix that is a decimal literal, after leading white
  space: an optional sign, then \<^verbatim>\<open>Infinity\<close> or digits with an optional fraction and an
  optional exponent; with no such prefix the result is NaN.
\<close>

definition exponentPart :: "string \<Rightarrow> int" where
  "exponentPart r =
     (case r of
        [] \<Rightarrow> 0
      | c # r1 \<Rightarrow>
          if c = CHR ''e'' \<or> c = CHR ''E'' then
            (case r1 of
               [] \<Rightarrow> 0
             | s # r2 \<Rightarrow>
                 if s = CHR ''-'' then
                   (if takeWhile isDigit r2 = [] then 0
                    else - int (decimal (takeWhile isDigit r2)))
                 else if s = CHR ''+'' then int (decimal (takeWhile isDigit r2))
                 else int (decimal (takeWhile isDigit r1)))
          else 0)"

definition unsignedLiteral :: "string \<Rightarrow> jsnum" where
  "unsignedLiteral r =
     (if take 8 r = ''Infinity'' then PosInf
      else
        (let ip = takeWhile isDigit r;
             r1 = dropWhile isDigit r;
             dot = (r1 \<noteq> [] \<and> hd r1 = CHR ''.'');
             fp = (if dot then takeWhile isDigit (tl r1) else []);
             r2 = (if dot then dropWhile isDigit (tl r1) else r1)
         in if ip = [] \<and> fp = [] then NaN
            else fl (of_nat (decimal (ip @ fp)) * pow10 (exponentPart r2 - int (length fp)))))"

definition parseFloat :: "string \<Rightarrow> jsnum" where
  "parseFloat s =
     (case dropWhile isWhiteSpace s of
        [] \<Rightarrow> NaN
      | c # r \<Rightarrow>
          if c = CHR ''-'' then jsneg (unsignedLiteral r)
          else if c = CHR ''+'' then unsignedLiteral r
          else unsignedLiteral (c # r))"

text \<open>
  \<^verbatim>\<open>Number.prototype.toFixed\<close>. A value of magnitude \<open>10^21\<close> or more is handed to
  \<^verbatim>\<open>Number.prototype.toString\<close>, whose digit generation is not modelled: the result
  is kept as the number.
\<close>

datatype domText = Text string | NumberToString real

fun natDigits :: "nat \<Rightarrow> string" where
  "natDigits n =
     (if n < 10 then [''0123456789'' ! n]
      else natDigits (n div 10) @ [''0123456789'' ! (n mod 10)])"

declare natDigits.simps [simp del]

definition fixedDigits :: "nat \<Rightarrow> real \<Rightarrow> string" where
  "fixedDigits f x =
     (let n = nat \<lfloor>x * 10 ^ f + 1 / 2\<rfloor>;
          m = natDigits n;
          padded = (if length m \<le> f then replicate (f + 1 - length m) CHR ''0'' @ m else m)
      in if f = 0 then m
         else take (length padded - f) padded @ ''.'' @ drop (length padded - f) padded)"

fun toFixed :: "nat \<Rightarrow> jsnum \<Rightarrow> domText" where
  "toFixed f NaN = Text ''NaN''"
| "toFixed f PosInf = Text ''Infinity''"
| "toFixed f NegInf = Text ''-Infinity''"
| "toFixed f (Fin x) =
     (if 10 ^ 21 \<le> \<bar>x\<bar> then NumberToString x
      else if x < 0 then Text (''-'' @ fixedDigits f (- x))
      else Text (fixedDigits f x))"


section \<open>The data model\<close>

text \<open>
  A food record of the nutrition provider carries a list of nutrient entries, a name
  and a value each. The profile of four fields is what \<^verbatim>\<open>extractNutrients\<close> builds;
  the meal totals have the same four fields.
\<close>

record foodNutrient =
  nutrientName :: string
  nutrientValue :: jsnum

record foodItem =
  foodNutrients :: "foodNutrient list"

record nutrients =
  calories :: jsnum
  protein :: jsnum
  carbs :: jsnum
  fat :: jsnum

definition zeroNutrients :: nutrients where
  "zeroNutrients = \<lparr>calories = Fin 0, protein = Fin 0, carbs = Fin 0, fat = Fin 0\<rparr>"


section \<open>extractNutrients\<close>

text \<open>The body of the \<^verbatim>\<open>forEach\<close> callback: a \<^verbatim>\<open>switch\<close> on the entry's name.\<close>

definition nutrientCase :: "nutrients \<Rightarrow> foodNutrient \<Rightarrow> nutrients" where
  "nutrientCase acc n =
     (if nutrientName n = ''Energy'' then acc\<lparr>calories := nutrientValue n\<rparr>
      else if nutrientName n = ''Protein'' then acc\<lparr>protein := nutrientValue n\<rparr>
      else if nutrientName n = ''Carbohydrate, by difference'' then acc\<lparr>carbs := nutrientValue n\<rparr>
      else if nutrientName n = ''Total lipid (fat)'' then acc\<lparr>fat := nutrientValue n\<rparr>
      else acc)"

definition extractNutrients :: "foodItem \<Rightarrow> nutrients" where
  "extractNutrients item = foldl nutrientCase zeroNutrients (foodNutrients item)"


section \<open>estimateGramsFromMeasure\<close>

definition measureToGrams :: "(string \<times> real) list" where
  "measureToGrams =
     [(''cup'', 240), (''tablespoon'', 15), (''tbsp'', 15), (''teaspoon'', 5), (''tsp'', 5),
      (''slice'', 30), (''slices'', 30), (''piece'', 50), (''pieces'', 50), (''oz'', 28),
      (''ounces'', 28), (''pound'', 454), (''lb'', 454), (''g'', 1), (''gram'', 1),
      (''grams'', 1)]"

text \<open>
  \<^verbatim>\<open>measureToGrams[unit]\<close> is a property read on an object literal: it finds the
  object's own keys and, failing that, what the object inherits from
  \<^verbatim>\<open>Object.prototype\<close>; only then is it \<^verbatim>\<open>undefined\<close>.
\<close>

definition objectPrototypeKeys :: "string list" where
  "objectPrototypeKeys =
     [''constructor'', ''hasOwnProperty'', ''isPrototypeOf'', ''propertyIsEnumerable'',
      ''toLocaleString'', ''toString'', ''valueOf'', ''__proto__'', ''__defineGetter__'',
      ''__defineSetter__'', ''__lookupGetter__'', ''__lookupSetter__'']"

datatype property = Own real | Inherited | Undefined

definition readUnit :: "string \<Rightarrow> property" where
  "readUnit unit =
     (case map_of measureToGrams unit of
        Some g \<Rightarrow> Own g
      | None \<Rightarrow> if unit \<in> set objectPrototypeKeys then Inherited else Undefined)"

text \<open>
  \<^verbatim>\<open>measureToGrams[unit] || 100\<close>, as the number the multiplication then sees. An
  inherited property is an object, hence truthy, and as a factor it converts to NaN.
\<close>

definition gramsPerUnit :: "string \<Rightarrow> jsnum" where
  "gramsPerUnit unit =
     (case readUnit unit of
        Own g \<Rightarrow> js_or (Fin g) (Fin 100)
      | Inherited \<Rightarrow> NaN
      | Undefined \<Rightarrow> Fin 100)"

definition isQuantityChar :: "char \<Rightarrow> bool" where
  "isQuantityChar c \<longleftrightarrow> isDigit c \<or> c = CHR ''.'' \<or> c = CHR ''/''"

definition isLetter :: "char \<Rightarrow> bool" where
  "isLetter c \<longleftrightarrow> c \<in> set ''abcdefghijklmnopqrstuvwxyzABCDEFGHIJKLMNOPQRSTUVWXYZ''"

text \<open>
  The match of \<^verbatim>\<open>/^([\d./]+)\s*([a-zA-Z]+)/\<close>. The three character classes are
  disjoint, so giving back a character of the first group or of the white space never
  helps: the match exists exactly when the longest run of quantity characters is not
  empty and the longest run of white space after it is followed by a letter, and the
  groups are those longest runs.
\<close>

definition matchMeasure :: "string \<Rightarrow> (string \<times> string) option" where
  "matchMeasure s =
     (let quantity = takeWhile isQuantityChar s;
          unit = takeWhile isLetter (dropWhile isWhiteSpace (dropWhile isQuantityChar s))
      in if quantity = [] \<or> unit = [] then None else Some (quantity, unit))"

text \<open>\<^verbatim>\<open>s.split(d)\<close> for a one-character separator.\<close>

fun splitOn :: "char \<Rightarrow> string \<Rightarrow> string list" where
  "splitOn d [] = [] # []"
| "splitOn d (c # cs) =
     (if c = d then [] # splitOn d cs
      else (case splitOn d cs of p # ps \<Rightarrow> (c # p) # ps | [] \<Rightarrow> [c] # []))"

text \<open>
  The quantity of a matched token. A part that \<^verbatim>\<open>split\<close> did not produce would read
  as \<^verbatim>\<open>undefined\<close>, which \<^verbatim>\<open>parseFloat\<close> turns into NaN.
\<close>

definition parseQuantity :: "string \<Rightarrow> jsnum" where
  "parseQuantity quantity =
     (if CHR ''/'' \<in> set quantity then
        (case splitOn CHR ''/'' quantity of
           n # d # rest \<Rightarrow> jsdiv (parseFloat n) (parseFloat d)
         | [n] \<Rightarrow> jsdiv (parseFloat n) NaN
         | [] \<Rightarrow> jsdiv NaN NaN)
      else parseFloat quantity)"

text \<open>The measure of a meal is a string, or absent (\<^verbatim>\<open>null\<close>, \<^verbatim>\<open>undefined\<close>).\<close>

definition estimateGramsFromMeasure :: "string option \<Rightarrow> jsnum" where
  "estimateGramsFromMeasure measure' =
     (case measure' of
        None \<Rightarrow> Fin 100
      | Some m \<Rightarrow>
          if m = [] then Fin 100
          else (case matchMeasure (toLowerCase (trim m)) of
                  None \<Rightarrow> Fin 100
                | Some (quantity, unit) \<Rightarrow> jsmul (parseQuantity quantity) (gramsPerUnit unit)))"


section \<open>The direct lookup\<close>

text \<open>The four elements of the page that show the result of a lookup.\<close>

record page =
  el_calories :: domText
  el_protein :: domText
  el_carbs :: domText
  el_fat :: domText

definition displayNutrients :: "nutrients \<Rightarrow> jsnum \<Rightarrow> page" where
  "displayNutrients n quantity =
     (let scale = jsdiv quantity (Fin 100)
      in \<lparr>el_calories = toFixed 1 (jsmul (calories n) scale),
          el_protein = toFixed 1 (jsmul (protein n) scale),
          el_carbs = toFixed 1 (jsmul (carbs n) scale),
          el_fat = toFixed 1 (jsmul (fat n) scale)\<rparr>)"

definition resetResults :: page where
  "resetResults = \<lparr>el_calories = Text ''0'', el_protein = Text ''0'',
                    el_carbs = Text ''0'', el_fat = Text ''0''\<rparr>"

text \<open>
  The nutrition provider, as the program sees it: the request is rejected (the fetch
  fails, or the body is not JSON), or it yields an object whose \<^verbatim>\<open>foods\<close> is absent
  or a list of records. The answer depends on the text of the query only.
\<close>

datatype response = Rejected | Parsed "foodItem list option"

type_synonym provider = "string \<Rightarrow> response"

datatype failure = RequestFailed | FoodNotFound

definition fetchNutritionData :: "provider \<Rightarrow> string \<Rightarrow> failure + foodItem" where
  "fetchNutritionData p foodName =
     (case p foodName of
        Rejected \<Rightarrow> Inl RequestFailed
      | Parsed None \<Rightarrow> Inl FoodNotFound
      | Parsed (Some []) \<Rightarrow> Inl FoodNotFound
      | Parsed (Some (item # rest)) \<Rightarrow> Inr item)"

text \<open>
  \<^verbatim>\<open>calculate\<close>, from the two input fields to the alert it raises (if any) and the
  page it leaves. The meal suggestions it starts afterwards are not awaited and are
  not part of this result.
\<close>

definition calculate :: "provider \<Rightarrow> string \<Rightarrow> string \<Rightarrow> string option \<times> page" where
  "calculate p food quantityField =
     (let foodName = trim food;
          quantity = parseFloat quantityField
      in if foodName = [] \<or> quantity = NaN \<or> js_le_zero quantity
         then (Some ''Enter valid food and quantity.'', resetResults)
         else (case fetchNutritionData p foodName of
                 Inl err \<Rightarrow> (Some ''Error fetching nutrition info!'', resetResults)
               | Inr item \<Rightarrow> (None, displayNutrients (extractNutrients item) quantity)))"


section \<open>estimateMealNutrition\<close>

text \<open>
  A meal of the recipe provider: \<^verbatim>\<open>strIngredient1\<close> .. \<^verbatim>\<open>strIngredient20\<close> and
  \<^verbatim>\<open>strMeasure1\<close> .. \<^verbatim>\<open>strMeasure20\<close>, each a string or absent.
\<close>

record meal =
  idMeal :: string
  strIngredient :: "nat \<Rightarrow> string option"
  strMeasure :: "nat \<Rightarrow> string option"

text \<open>
  The state of the loop: the totals, and what the loop did to the outside, in order:
  the indices whose ingredient it asked the provider for, and the indices it logged a
  warning for.
\<close>

record loopState =
  totals :: nutrients
  requests :: "nat list"
  warnings :: "nat list"

definition maxNumIngredients :: nat where
  "maxNumIngredients = 20"

definition initialState :: loopState where
  "initialState = \<lparr>totals = zeroNutrients, requests = [], warnings = []\<rparr>"

text \<open>\<^verbatim>\<open>!ingredient || ingredient.trim() === ""\<close>\<close>

definition isBlank :: "string option \<Rightarrow> bool" where
  "isBlank ingredient =
     (case ingredient of None \<Rightarrow> True | Some s \<Rightarrow> s = [] \<or> trim s = [])"

definition addScaled :: "nutrients \<Rightarrow> nutrients \<Rightarrow> jsnum \<Rightarrow> nutrients" where
  "addScaled t n scale =
     \<lparr>calories = jsadd (calories t) (jsmul (js_or (calories n) (Fin 0)) scale),
      protein = jsadd (protein t) (jsmul (js_or (protein n) (Fin 0)) scale),
      carbs = jsadd (carbs t) (jsmul (js_or (carbs n) (Fin 0)) scale),
      fat = jsadd (fat t) (jsmul (js_or (fat n) (Fin 0)) scale)\<rparr>"

text \<open>
  The \<^verbatim>\<open>try\<close> block: it throws (\<open>Inl\<close>) when the request is rejected, and otherwise
  returns the totals, updated when \<^verbatim>\<open>data.foods && data.foods[0]\<close> holds.
\<close>

definition tryIngredient ::
    "provider \<Rightarrow> string \<Rightarrow> string option \<Rightarrow> nutrients \<Rightarrow> failure + nutrients" where
  "tryIngredient p ingredient measure' t =
     (case p ingredient of
        Rejected \<Rightarrow> Inl RequestFailed
      | Parsed None \<Rightarrow> Inr t
      | Parsed (Some []) \<Rightarrow> Inr t
      | Parsed (Some (item # rest)) \<Rightarrow>
          Inr (addScaled t (extractNutrients item)
                 (jsdiv (estimateGramsFromMeasure measure') (Fin 100))))"

text \<open>One turn of the loop, for index \<open>i\<close>; the \<^verbatim>\<open>catch\<close> logs and goes on.\<close>

definition iteration :: "provider \<Rightarrow> meal \<Rightarrow> nat \<Rightarrow> loopState \<Rightarrow> loopState" where
  "iteration p m i st =
     (case strIngredient m i of
        None \<Rightarrow> st
      | Some ingredient \<Rightarrow>
          if ingredient = [] \<or> trim ingredient = [] then st
          else (case tryIngredient p ingredient (strMeasure m i) (totals st) of
                  Inl err \<Rightarrow> st\<lparr>requests := requests st @ [i], warnings := warnings st @ [i]\<rparr>
                | Inr t \<Rightarrow> st\<lparr>totals := t, requests := requests st @ [i]\<rparr>))"

text \<open>\<^verbatim>\<open>for (let i = ...; i <= bound; i++)\<close>, from index \<open>i\<close> on.\<close>

function ingredientLoop ::
    "provider \<Rightarrow> meal \<Rightarrow> nat \<Rightarrow> nat \<Rightarrow> loopState \<Rightarrow> loopState" where
  "ingredientLoop p m bound i st =
     (if i \<le> bound then ingredientLoop p m bound (Suc i) (iteration p m i st) else st)"
  by pat_completeness auto
termination
  by (relation "measure (\<lambda>(p, m, bound, i, st). Suc bound - i)") auto

declare ingredientLoop.simps [simp del]

text \<open>
  The function up to the end of its loop; what follows in the source writes the
  totals into the meal's card.
\<close>

definition estimateMealNutrition :: "provider \<Rightarrow> meal \<Rightarrow> loopState" where
  "estimateMealNutrition p m = ingredientLoop p m maxNumIngredients 1 initialState"


section \<open>The specification's notions\<close>

text \<open>
  What the specification says of the extractor: a field is the value of the last entry
  of that name, and 0 when there is none.
\<close>

definition lastMatch :: "string \<Rightarrow> foodNutrient list \<Rightarrow> jsnum" where
  "lastMatch name ns =
     (let matching = filter (\<lambda>n. nutrientName n = name) ns
      in if matching = [] then Fin 0 else nutrientValue (last matching))"

definition recognizedNames :: "string list" where
  "recognizedNames =
     [''Energy'', ''Protein'', ''Carbohydrate, by difference'', ''Total lipid (fat)'']"

text \<open>Scaling a profile, and scaling every value of a record, by a factor.\<close>

definition scaleNutrients :: "jsnum \<Rightarrow> nutrients \<Rightarrow> nutrients" where
  "scaleNutrients k n =
     \<lparr>calories = jsmul (calories n) k, protein = jsmul (protein n) k,
      carbs = jsmul (carbs n) k, fat = jsmul (fat n) k\<rparr>"

definition scaleRecord :: "jsnum \<Rightarrow> foodItem \<Rightarrow> foodItem" where
  "scaleRecord k item =
     item\<lparr>foodNutrients :=
       map (\<lambda>n. n\<lparr>nutrientValue := jsmul (nutrientValue n) k\<rparr>) (foodNutrients item)\<rparr>"

text \<open>
  The shape the normalizer accepts, as a language: a non-empty run of digits, dots and
  slashes, then white space (possibly none), then a letter.
\<close>

definition measureShape :: "string \<Rightarrow> bool" where
  "measureShape s \<longleftrightarrow>
     (\<exists>q w u rest. s = q @ w @ u # rest \<and> q \<noteq> [] \<and> list_all isQuantityChar q \<and>
        list_all isWhiteSpace w \<and> isLetter u)"

text \<open>
  The numerator and the denominator of a quantity token: what stands before its first
  slash, and what stands between the first slash and the next (or the end).
\<close>

definition numeratorToken :: "string \<Rightarrow> string" where
  "numeratorToken q = takeWhile (\<lambda>c. c \<noteq> CHR ''/'') q"

definition denominatorToken :: "string \<Rightarrow> string" where
  "denominatorToken q =
     takeWhile (\<lambda>c. c \<noteq> CHR ''/'') (tl (dropWhile (\<lambda>c. c \<noteq> CHR ''/'') q))"

text \<open>
  The record a slot of the meal contributes: the first record of the provider's answer
  for a slot that is not blank; none for a blank slot or a failed lookup.
\<close>

definition firstRecord :: "provider \<Rightarrow> meal \<Rightarrow> nat \<Rightarrow> foodItem option" where
  "firstRecord p m i =
     (case strIngredient m i of
        None \<Rightarrow> None
      | Some ingredient \<Rightarrow>
          if isBlank (Some ingredient) then None
          else (case p ingredient of
                  Rejected \<Rightarrow> None
                | Parsed None \<Rightarrow> None
                | Parsed (Some []) \<Rightarrow> None
                | Parsed (Some (item # rest)) \<Rightarrow> Some item))"

definition lookupFails :: "provider \<Rightarrow> meal \<Rightarrow> nat \<Rightarrow> bool" where
  "lookupFails p m i \<longleftrightarrow> \<not> isBlank (strIngredient m i) \<and> firstRecord p m i = None"

text \<open>The lookups that throw: the slot is not blank and its request is rejected.\<close>

definition lookupThrows :: "provider \<Rightarrow> meal \<Rightarrow> nat \<Rightarrow> bool" where
  "lookupThrows p m i =
     (case strIngredient m i of
        None \<Rightarrow> False
      | Some ingredient \<Rightarrow> \<not> isBlank (Some ingredient) \<and> p ingredient = Rejected)"

definition contribution :: "provider \<Rightarrow> meal \<Rightarrow> nutrients \<Rightarrow> nat \<Rightarrow> nutrients" where
  "contribution p m t i =
     (case firstRecord p m i of
        None \<Rightarrow> t
      | Some item \<Rightarrow>
          addScaled t (extractNutrients item)
            (jsdiv (estimateGramsFromMeasure (strMeasure m i)) (Fin 100)))"




section \<open>Sample inputs\<close>

definition entry :: "string \<Rightarrow> jsnum \<Rightarrow> foodNutrient" where
  "entry name v = \<lparr>nutrientName = name, nutrientValue = v\<rparr>"

text \<open>
  The record of the specification's end-to-end example; a JSON number is the binary64
  value nearest to its decimal text.
\<close>

definition appleRecord :: foodItem where
  "appleRecord =
     \<lparr>foodNutrients =
        [entry ''Energy'' (fl 52), entry ''Protein'' (fl (3 / 10)),
         entry ''Carbohydrate, by difference'' (fl 14),
         entry ''Total lipid (fat)'' (fl (2 / 10))]\<rparr>"

definition appleProvider :: provider where
  "appleProvider name =
     (if name = ''apple'' then Parsed (Some [appleRecord])
      else if name = ''salt'' then Parsed (Some [])
      else Rejected)"

definition sampleMeal :: meal where
  "sampleMeal =
     \<lparr>idMeal = ''52893'',
      strIngredient = (\<lambda>i. if i = 1 then Some ''apple'' else if i = 2 then Some ''unicorn''
                          else if i = 3 then Some ''  '' else if i = 4 then Some ''salt''
                          else if i = 5 then Some [] else None),
      strMeasure = (\<lambda>i. if i = 1 then Some ''1/2 cup'' else if i = 2 then Some ''2 tbsp''
                       else if i = 4 then Some ''pinch'' else None)\<rparr>"

definition emptyMeal :: meal where
  "emptyMeal = \<lparr>idMeal = ''0'', strIngredient = (\<lambda>i. None), strMeasure = (\<lambda>i. None)\<rparr>"


section \<open>Facts about rounding\<close>

lemma pow2_powi: "pow2 e = 2 powi e"
  by (simp add: pow2_def power_int_def power_inverse [symmetric] inverse_eq_divide power_one_over)

lemma pow2_pos: "0 < pow2 e"
  by (simp add: pow2_powi)

lemma pow2_add: "pow2 (a + b) = pow2 a * pow2 b"
  by (simp add: pow2_powi power_int_add)

lemma pow2_succ: "pow2 (e + 1) = 2 * pow2 e"
  by (simp add: pow2_add) (simp add: pow2_def)

lemma pow2_mono: "a \<le> b \<Longrightarrow> pow2 a \<le> pow2 b"
  by (simp add: pow2_powi power_int_increasing)

lemma pow2_strict_mono: "a < b \<Longrightarrow> pow2 a < pow2 b"
  by (simp add: pow2_powi power_int_strict_increasing)

lemma pow2_less_D: "pow2 a < pow2 b \<Longrightarrow> a < b"
  using pow2_mono [of b a] by (cases "a < b") auto

lemma pow2_nat: "pow2 (int k) = 2 ^ k"
  by (simp add: pow2_def)

lemma pow2_neg: "pow2 (- e) = 1 / pow2 e"
  by (simp add: pow2_powi power_int_minus inverse_eq_divide)

lemma ilog2_bounds: "0 < n \<Longrightarrow> 2 ^ ilog2 n \<le> n \<and> n < 2 ^ Suc (ilog2 n)"
proof (induction n rule: ilog2.induct)
  case (1 n)
  show ?case
  proof (cases "n < 2")
    case True
    with "1.prems" show ?thesis by (simp add: ilog2.simps)
  next
    case False
    then have "0 < n div 2" by simp
    with "1.IH" False
    have ih: "2 ^ ilog2 (n div 2) \<le> n div 2" "n div 2 < 2 ^ Suc (ilog2 (n div 2))"
      by simp_all
    have eq: "ilog2 n = Suc (ilog2 (n div 2))"
      using False by (simp add: ilog2.simps)
    from ih show ?thesis unfolding eq by auto
  qed
qed

lemma ilog2_bounds_real:
  assumes "0 < n"
  shows "(2::real) ^ ilog2 n \<le> real n" "real n + 1 \<le> 2 ^ Suc (ilog2 n)"
proof -
  from ilog2_bounds [OF assms]
  have a: "2 ^ ilog2 n \<le> n" and b: "Suc n \<le> 2 ^ Suc (ilog2 n)"
    by simp_all
  have "real (2 ^ ilog2 n) \<le> real n"
    using a by (rule of_nat_mono)
  then show "(2::real) ^ ilog2 n \<le> real n" by simp
  have "real (Suc n) \<le> real (2 ^ Suc (ilog2 n))"
    using b by (rule of_nat_mono)
  then show "real n + 1 \<le> 2 ^ Suc (ilog2 n)" by simp
qed

lemma nat_floor_bounds:
  assumes "1 \<le> (a::real)"
  shows "0 < nat \<lfloor>a\<rfloor>" "real (nat \<lfloor>a\<rfloor>) \<le> a" "a < real (nat \<lfloor>a\<rfloor>) + 1"
proof -
  have f: "1 \<le> \<lfloor>a\<rfloor>" using assms by simp
  then show "0 < nat \<lfloor>a\<rfloor>" by simp
  have "real (nat \<lfloor>a\<rfloor>) = of_int \<lfloor>a\<rfloor>" using f by simp
  then show "real (nat \<lfloor>a\<rfloor>) \<le> a" "a < real (nat \<lfloor>a\<rfloor>) + 1" by linarith+
qed

lemma floor_log2_bounds:
  assumes "0 < a"
  shows "pow2 (floor_log2 a) \<le> a \<and> a < pow2 (floor_log2 a + 1)"
proof (cases "1 \<le> a")
  case True
  define n where "n = nat \<lfloor>a\<rfloor>"
  have n: "0 < n" "real n \<le> a" "a < real n + 1"
    using nat_floor_bounds [OF True] by (simp_all add: n_def)
  have fl2: "floor_log2 a = int (ilog2 n)"
    using True by (simp add: floor_log2_def n_def)
  have r: "(2::real) ^ ilog2 n \<le> real n" "real n + 1 \<le> 2 * 2 ^ ilog2 n"
    using ilog2_bounds_real [OF n(1)] by (simp_all only: power_Suc)
  show ?thesis
    unfolding fl2 pow2_succ pow2_nat using r n by linarith
next
  case False
  define b where "b = 1 / a"
  define n where "n = nat \<lfloor>b\<rfloor>"
  have b: "1 \<le> b" using False assms by (simp add: b_def)
  have n: "0 < n" "real n \<le> b" "b < real n + 1"
    using nat_floor_bounds [OF b] by (simp_all add: n_def)
  define k where "k = ilog2 n"
  have kb: "2 ^ k \<le> b" "b < 2 ^ Suc k"
    using ilog2_bounds_real [OF n(1)] n unfolding k_def by linarith+
  have a_le: "a \<le> pow2 (- int k)"
    using kb(1) assms by (simp add: pow2_neg pow2_nat b_def field_simps)
  have a_gt: "pow2 (- int k - 1) < a"
  proof -
    have "- int k - 1 = - int (Suc k)" by simp
    then have "pow2 (- int k - 1) = pow2 (- int (Suc k))" by (rule arg_cong)
    also have "\<dots> = 1 / 2 ^ Suc k" unfolding pow2_neg pow2_nat ..
    also have "\<dots> < a" using kb(2) assms by (simp add: b_def field_simps)
    finally show ?thesis .
  qed
  have fl2: "floor_log2 a = (if a = pow2 (- int k) then - int k else - int k - 1)"
    using False by (simp add: floor_log2_def Let_def k_def n_def b_def)
  show ?thesis
  proof (cases "a = pow2 (- int k)")
    case True
    then show ?thesis using fl2 by (simp add: pow2_strict_mono)
  next
    case False
    with a_le have "a < pow2 (- int k)" by simp
    with a_gt False show ?thesis using fl2 by simp
  qed
qed

lemma floor_log2_unique:
  assumes "pow2 e \<le> a" "a < pow2 (e + 1)"
  shows "floor_log2 a = e"
proof -
  have "0 < a" using assms(1) pow2_pos [of e] by linarith
  from floor_log2_bounds [OF this]
  have "pow2 (floor_log2 a) < pow2 (e + 1)" "pow2 e < pow2 (floor_log2 a + 1)"
    using assms by linarith+
  then have "floor_log2 a < e + 1" "e < floor_log2 a + 1"
    by (auto dest: pow2_less_D)
  then show ?thesis by simp
qed

lemma round_half_even_of_int: "round_half_even (of_int n) = n"
  by (simp add: round_half_even_def)


lemma round_half_even_le: "x \<le> of_int N \<Longrightarrow> round_half_even x \<le> N"
  unfolding round_half_even_def Let_def by (auto; linarith)

lemma fl_zero: "fl 0 = Fin 0"
  by (simp add: fl_def)


text \<open>A real with at most 53 significant bits, in range, is its own rounding.\<close>

lemma fl_exact:
  assumes "0 < n" "n < 2 ^ 53" "- 1074 \<le> k" "k \<le> 970"
  shows "fl (of_int n * pow2 k) = Fin (of_int n * pow2 k)"
proof -
  define x where "x = of_int n * pow2 k"
  have xpos: "0 < x"
    using assms(1) pow2_pos [of k] by (simp add: x_def)
  define e where "e = floor_log2 x"
  have b: "pow2 e \<le> x" "x < pow2 (e + 1)"
    using floor_log2_bounds [OF xpos] by (simp_all add: e_def)
  have "real_of_int n < pow2 53"
    using assms(2) by (simp add: pow2_def)
  then have "x < pow2 53 * pow2 k"
    unfolding x_def using pow2_pos [of k] by (simp add: mult_strict_right_mono)
  then have xlt: "x < pow2 (53 + k)" by (simp add: pow2_add)
  with b(1) have "pow2 e < pow2 (53 + k)" by linarith
  then have elt: "e < 53 + k" by (rule pow2_less_D)
  define q where "q = max (e - 52) (- 1074)"
  have qk: "q \<le> k" using elt assms(3) by (simp add: q_def)
  have "pow2 k = pow2 (k - q) * pow2 q"
    using pow2_add [of "k - q" q] by simp
  also have "pow2 (k - q) = 2 ^ nat (k - q)"
    using qk by (simp add: pow2_def)
  finally have split: "pow2 k = 2 ^ nat (k - q) * pow2 q" .
  have "x / pow2 q = of_int (n * 2 ^ nat (k - q))"
    using pow2_pos [of q] by (simp add: x_def split)
  then have r: "round_half_even (x / pow2 q) = n * 2 ^ nat (k - q)"
    by (simp only: round_half_even_of_int)
  have m: "of_int (round_half_even (x / pow2 q)) * pow2 q = x"
    unfolding r by (simp add: x_def split)
  have "pow2 (53 + k) \<le> pow2 1023"
    using assms(4) by (intro pow2_mono) simp
  also have "\<dots> < pow2 1024" by (intro pow2_strict_mono) simp
  finally have nov: "\<not> pow2 1024 \<le> x" using xlt by linarith
  have "fl x = Fin x"
    using xpos m nov by (simp add: fl_def Let_def q_def [symmetric] e_def [symmetric])
  then show ?thesis by (simp add: x_def)
qed

text \<open>The rounding of a positive real in the normal range, given its binary exponent.\<close>

lemma fl_normal:
  assumes "pow2 e \<le> x" "x < pow2 (e + 1)" "- 1022 \<le> e" "e \<le> 1022"
  shows "fl x = Fin (of_int (round_half_even (x / pow2 (e - 52))) * pow2 (e - 52))"
proof -
  have xpos: "0 < x" using assms(1) pow2_pos [of e] by linarith
  have e: "floor_log2 x = e"
    using assms(1,2) by (rule floor_log2_unique)
  have q: "max (e - 52) (- 1074) = e - 52" using assms(3) by simp
  define n where "n = round_half_even (x / pow2 (e - 52))"
  have "e + 1 = 53 + (e - 52)" by simp
  then have "pow2 (e + 1) = pow2 (53 + (e - 52))" by (rule arg_cong)
  then have p: "pow2 (e + 1) = pow2 53 * pow2 (e - 52)"
    by (simp only: pow2_add)
  with assms(2) have "x / pow2 (e - 52) < pow2 53"
    using pow2_pos [of "e - 52"] by (simp add: field_simps)
  also have "pow2 53 = of_int (2 ^ 53)" by (simp add: pow2_def)
  finally have "n \<le> 2 ^ 53"
    unfolding n_def by (intro round_half_even_le) simp
  then have "real_of_int n \<le> pow2 53" by (simp add: pow2_def)
  then have "of_int n * pow2 (e - 52) \<le> pow2 53 * pow2 (e - 52)"
    using pow2_pos [of "e - 52"] by (simp add: mult_right_mono)
  also have "\<dots> = pow2 (e + 1)"
    using p by simp
  also have "\<dots> \<le> pow2 1023" using assms(4) by (intro pow2_mono) simp
  also have "\<dots> < pow2 1024" by (intro pow2_strict_mono) simp
  finally have nov: "\<not> pow2 1024 \<le> of_int n * pow2 (e - 52)" by simp
  show ?thesis
    using xpos nov by (simp add: fl_def Let_def e q n_def [symmetric])
qed





section \<open>Evaluating the model\<close>

lemma fl_numeral: "numeral k < (2::int) ^ 53 \<Longrightarrow> fl (numeral k) = Fin (numeral k)"
  using fl_exact [of "numeral k" 0] by (simp add: pow2_def)

lemma fl_one: "fl 1 = Fin 1"
  using fl_exact [of 1 0] by (simp add: pow2_def)

lemma fl_half: "fl (1 / 2) = Fin (1 / 2)"
  using fl_exact [of 1 "- 1"] by (simp add: pow2_def)

lemma fl_three_halves: "fl (3 / 2) = Fin (3 / 2)"
  using fl_exact [of 3 "- 1"] by (simp add: pow2_def)

lemma fl_three_tenths: "fl (3 / 10) = Fin (5404319552844595 / 2 ^ 54)"
  using fl_normal [of "- 2" "3 / 10"] by (simp add: pow2_def round_half_even_def)

lemma fl_two_tenths: "fl (2 / 10) = Fin (3602879701896397 / 2 ^ 54)"
  using fl_normal [of "- 3" "2 / 10"] by (simp add: pow2_def round_half_even_def)

lemmas string_eval = isWhiteSpace_def trim_def toLowerCase_def lowerChar_def char_of_def
  bit_Suc_0_iff isDigit_def digitValue_def decimal_def pow10_def isQuantityChar_def
  isLetter_def

lemmas parse_eval = parseQuantity_def parseFloat_def unsignedLiteral_def exponentPart_def
  matchMeasure_def string_eval fl_numeral fl_one fl_zero

lemmas unit_eval = gramsPerUnit_def readUnit_def measureToGrams_def objectPrototypeKeys_def
  js_or_def

lemma upt_1_21:
  "[Suc 0..<21] = [1, 2, 3, 4, 5, 6, 7, 8, 9, 10, 11, 12, 13, 14, 15, 16, 17, 18, 19, 20]"
  by (simp add: upt_rec)

lemma blank_eval:
  "isBlank None" "isBlank (Some [])" "isBlank (Some ''  '')" "\<not> isBlank (Some ''apple'')"
  "\<not> isBlank (Some ''unicorn'')" "\<not> isBlank (Some ''salt'')"
  by (simp_all add: isBlank_def string_eval)

lemma grams_eval:
  "estimateGramsFromMeasure None = Fin 100"
  "estimateGramsFromMeasure (Some []) = Fin 100"
  "estimateGramsFromMeasure (Some ''1/2 cup'') = Fin 120"
  "estimateGramsFromMeasure (Some ''2 tbsp'') = Fin 30"
  "estimateGramsFromMeasure (Some ''abc'') = Fin 100"
  "estimateGramsFromMeasure (Some ''pinch'') = Fin 100"
  "estimateGramsFromMeasure (Some ''3 grams'') = Fin 3"
  "estimateGramsFromMeasure (Some ''3grams'') = Fin 3"
  "estimateGramsFromMeasure (Some ''1/0 cup'') = PosInf"
  "estimateGramsFromMeasure (Some ''0/0 cup'') = NaN"
  "estimateGramsFromMeasure (Some ''1 constructor'') = NaN"
  by (simp_all add: estimateGramsFromMeasure_def parse_eval unit_eval fl_half)

lemma extract_apple:
  "extractNutrients appleRecord =
     \<lparr>calories = Fin 52, protein = Fin (5404319552844595 / 2 ^ 54), carbs = Fin 14,
      fat = Fin (3602879701896397 / 2 ^ 54)\<rparr>"
  using fl_three_tenths fl_two_tenths
  by (simp add: extractNutrients_def appleRecord_def entry_def nutrientCase_def zeroNutrients_def
      fl_numeral)

lemma apple_products:
  "jsmul (Fin 52) (Fin (3 / 2)) = Fin 78"
  "jsmul (Fin (5404319552844595 / 2 ^ 54)) (Fin (3 / 2)) = Fin (8106479329266892 / 2 ^ 54)"
  "jsmul (Fin 14) (Fin (3 / 2)) = Fin 21"
  "jsmul (Fin (3602879701896397 / 2 ^ 54)) (Fin (3 / 2)) = Fin (5404319552844596 / 2 ^ 54)"
proof -
  show "jsmul (Fin 52) (Fin (3 / 2)) = Fin 78" by (simp add: fl_numeral)
  show "jsmul (Fin 14) (Fin (3 / 2)) = Fin 21" by (simp add: fl_numeral)
  show "jsmul (Fin (5404319552844595 / 2 ^ 54)) (Fin (3 / 2)) = Fin (8106479329266892 / 2 ^ 54)"
    using fl_normal [of "- 2" "5404319552844595 / 2 ^ 54 * (3 / 2)"]
    by (simp add: pow2_def round_half_even_def)
  show "jsmul (Fin (3602879701896397 / 2 ^ 54)) (Fin (3 / 2)) = Fin (5404319552844596 / 2 ^ 54)"
    using fl_normal [of "- 2" "3602879701896397 / 2 ^ 54 * (3 / 2)"]
    by (simp add: pow2_def round_half_even_def)
qed

lemma apple_texts:
  "toFixed 1 (Fin 78) = Text ''78.0''"
  "toFixed 1 (Fin (8106479329266892 / 2 ^ 54)) = Text ''0.4''"
  "toFixed 1 (Fin 21) = Text ''21.0''"
  "toFixed 1 (Fin (5404319552844596 / 2 ^ 54)) = Text ''0.3''"
  by (simp_all add: fixedDigits_def natDigits.simps)

lemma apple_page:
  "calculate appleProvider ''apple'' ''150'' =
     (None, \<lparr>el_calories = Text ''78.0'', el_protein = Text ''0.4'',
             el_carbs = Text ''21.0'', el_fat = Text ''0.3''\<rparr>)"
proof -
  have q: "parseFloat ''150'' = Fin 150" by (simp add: parse_eval)
  have n: "trim ''apple'' = ''apple''" by (simp add: string_eval)
  have s: "jsdiv (Fin 150) (Fin 100) = Fin (3 / 2)" using fl_three_halves by simp
  have f: "fetchNutritionData appleProvider ''apple'' = Inr appleRecord"
    by (simp add: fetchNutritionData_def appleProvider_def)
  show ?thesis
    using extract_apple apple_products apple_texts s
    by (simp add: calculate_def q n f displayNutrients_def del: toFixed.simps)
qed


section \<open>The extractor\<close>

lemma lastMatch_snoc:
  "lastMatch name (ns @ [n]) =
     (if nutrientName n = name then nutrientValue n else lastMatch name ns)"
  by (simp add: lastMatch_def Let_def)

lemma extract_fields:
  "foldl nutrientCase zeroNutrients ns =
     \<lparr>calories = lastMatch ''Energy'' ns, protein = lastMatch ''Protein'' ns,
      carbs = lastMatch ''Carbohydrate, by difference'' ns,
      fat = lastMatch ''Total lipid (fat)'' ns\<rparr>"
proof (induction ns rule: rev_induct)
  case Nil
  show ?case by (simp add: lastMatch_def zeroNutrients_def)
next
  case (snoc n ns)
  show ?case
    unfolding foldl_append lastMatch_snoc snoc.IH
    by (simp add: nutrientCase_def)
qed

lemma lastMatch_unrecognized:
  assumes "list_all (\<lambda>n. nutrientName n \<notin> set recognizedNames) ns"
    and "name \<in> set recognizedNames"
  shows "lastMatch name ns = Fin 0"
proof -
  have "filter (\<lambda>n. nutrientName n = name) ns = []"
    using assms by (auto simp: filter_empty_conv list_all_iff)
  then show ?thesis by (simp add: lastMatch_def)
qed

text \<open>
  Claim C2. For every food record, \<^verbatim>\<open>extractNutrients\<close> returns the profile whose
  four fields are, each, the value of the last entry whose name is exactly the
  field's recognized name, and 0 when no entry has that name: a later entry of the
  same name overwrites an earlier one, an entry of any other name changes nothing,
  and a record with no recognized name gives the all-zero profile. The function is
  total: a missing nutrient raises nothing.
\<close>

theorem extract_last_match_wins:
  "extractNutrients item =
     \<lparr>calories = lastMatch ''Energy'' (foodNutrients item),
      protein = lastMatch ''Protein'' (foodNutrients item),
      carbs = lastMatch ''Carbohydrate, by difference'' (foodNutrients item),
      fat = lastMatch ''Total lipid (fat)'' (foodNutrients item)\<rparr> \<and>
   (list_all (\<lambda>n. nutrientName n \<notin> set recognizedNames) (foodNutrients item) \<longrightarrow>
      extractNutrients item = zeroNutrients)"
proof (intro conjI impI)
  show f: "extractNutrients item =
     \<lparr>calories = lastMatch ''Energy'' (foodNutrients item),
      protein = lastMatch ''Protein'' (foodNutrients item),
      carbs = lastMatch ''Carbohydrate, by difference'' (foodNutrients item),
      fat = lastMatch ''Total lipid (fat)'' (foodNutrients item)\<rparr>"
    unfolding extractNutrients_def by (rule extract_fields)
  assume "list_all (\<lambda>n. nutrientName n \<notin> set recognizedNames) (foodNutrients item)"
  then show "extractNutrients item = zeroNutrients"
    unfolding f zeroNutrients_def
    by (simp add: lastMatch_unrecognized recognizedNames_def)
qed

theorem extract_last_match_wins_witness:
  "calories (extractNutrients \<lparr>foodNutrients =
      [entry ''Energy'' (Fin 1), entry ''Fiber'' (Fin 9), entry ''Energy'' (Fin 2),
       entry ''energy'' (Fin 3)]\<rparr>) = Fin 2 \<and>
   list_all (\<lambda>n. nutrientName n \<notin> set recognizedNames)
     (foodNutrients \<lparr>foodNutrients = [entry ''Fiber'' (Fin 9), entry ''energy'' (Fin 3)]\<rparr>) \<and>
   extractNutrients \<lparr>foodNutrients = [entry ''Fiber'' (Fin 9), entry ''energy'' (Fin 3)]\<rparr>
     = zeroNutrients"
  using extract_last_match_wins [of "\<lparr>foodNutrients =
      [entry ''Energy'' (Fin 1), entry ''Fiber'' (Fin 9), entry ''Energy'' (Fin 2),
       entry ''energy'' (Fin 3)]\<rparr>"]
    extract_last_match_wins [of
      "\<lparr>foodNutrients = [entry ''Fiber'' (Fin 9), entry ''energy'' (Fin 3)]\<rparr>"]
  by (simp add: lastMatch_def entry_def recognizedNames_def zeroNutrients_def)


section \<open>The loop over the ingredients\<close>

lemma loop_foldl:
  "ingredientLoop p m bound i st = foldl (\<lambda>s j. iteration p m j s) st [i..<Suc bound]"
proof (induction p m bound i st rule: ingredientLoop.induct)
  case (1 p m bound i st)
  show ?case
  proof (cases "i \<le> bound")
    case True
    then have "[i..<Suc bound] = i # [Suc i..<Suc bound]"
      by (simp add: upt_conv_Cons)
    with True "1.IH" show ?thesis
      by (simp add: ingredientLoop.simps [of p m bound i st])
  next
    case False
    then show ?thesis
      by (simp add: ingredientLoop.simps [of p m bound i st])
  qed
qed

lemma iteration_blank: "isBlank (strIngredient m i) \<Longrightarrow> iteration p m i st = st"
  by (auto simp: iteration_def isBlank_def split: option.splits)

lemma iteration_totals: "totals (iteration p m i st) = contribution p m (totals st) i"
  by (simp add: iteration_def contribution_def firstRecord_def tryIngredient_def isBlank_def
      split: option.splits response.splits list.splits)

lemma iteration_requests:
  "requests (iteration p m i st) =
     requests st @ (if isBlank (strIngredient m i) then [] else [i])"
  by (simp add: iteration_def isBlank_def split: option.splits sum.splits)

lemma iteration_warnings:
  "warnings (iteration p m i st) =
     warnings st @ (if lookupThrows p m i then [i] else [])"
  by (auto simp: iteration_def lookupThrows_def isBlank_def tryIngredient_def
      split: option.splits sum.splits response.splits list.splits)

lemma foldl_warnings:
  "warnings (foldl (\<lambda>s j. iteration p m j s) st xs) =
     warnings st @ filter (lookupThrows p m) xs"
  by (induction xs arbitrary: st) (simp_all add: iteration_warnings)

lemma foldl_totals:
  "totals (foldl (\<lambda>s j. iteration p m j s) st xs) = foldl (contribution p m) (totals st) xs"
  by (induction xs arbitrary: st) (simp_all add: iteration_totals)

lemma foldl_requests:
  "requests (foldl (\<lambda>s j. iteration p m j s) st xs) =
     requests st @ filter (\<lambda>i. \<not> isBlank (strIngredient m i)) xs"
  by (induction xs arbitrary: st) (simp_all add: iteration_requests)

lemma contribution_none: "firstRecord p m i = None \<Longrightarrow> contribution p m t i = t"
  by (simp add: contribution_def)

lemma firstRecord_blank: "isBlank (strIngredient m i) \<Longrightarrow> firstRecord p m i = None"
  by (auto simp: firstRecord_def split: option.splits)

lemma foldl_contribution_filter:
  "foldl (contribution p m) t (filter (\<lambda>i. firstRecord p m i \<noteq> None) xs) =
     foldl (contribution p m) t xs"
  by (induction xs arbitrary: t) (simp_all add: contribution_none)

lemma foldl_contribution_blank:
  "list_all (\<lambda>i. isBlank (strIngredient m i)) xs \<Longrightarrow> foldl (contribution p m) t xs = t"
  by (induction xs arbitrary: t) (simp_all add: contribution_none firstRecord_blank)

lemma totals_estimate:
  "totals (estimateMealNutrition p m) = foldl (contribution p m) zeroNutrients [1..<21]"
  by (simp add: estimateMealNutrition_def loop_foldl foldl_totals maxNumIngredients_def
      initialState_def)

lemma requests_estimate:
  "requests (estimateMealNutrition p m) = filter (\<lambda>i. \<not> isBlank (strIngredient m i)) [1..<21]"
  by (simp add: estimateMealNutrition_def loop_foldl foldl_requests maxNumIngredients_def
      initialState_def)

lemma warnings_estimate:
  "warnings (estimateMealNutrition p m) = filter (lookupThrows p m) [1..<21]"
  by (simp add: estimateMealNutrition_def loop_foldl foldl_warnings maxNumIngredients_def
      initialState_def)

lemma firstRecord_without:
  "firstRecord p (m\<lparr>strIngredient := (strIngredient m)(k := None)\<rparr>) i =
     (if i = k then None else firstRecord p m i)"
  by (simp add: firstRecord_def)

lemma contribution_without:
  assumes "firstRecord p m k = None"
  shows "contribution p (m\<lparr>strIngredient := (strIngredient m)(k := None)\<rparr>) = contribution p m"
proof (intro ext)
  fix t i
  show "contribution p (m\<lparr>strIngredient := (strIngredient m)(k := None)\<rparr>) t i
      = contribution p m t i"
    unfolding contribution_def firstRecord_without using assms
    by (simp split: option.splits)
qed

text \<open>
  Claim C7. For every meal, the loop skips exactly the slots among the 20 whose
  ingredient is absent or blank after trimming: a turn of the loop on such a slot
  leaves the state as it was, the provider is asked for exactly the other slots, in
  order, and when all 20 slots are blank or absent the totals are zero in all four
  fields.
\<close>

theorem blank_slots_skipped:
  "(isBlank (strIngredient m i) \<longrightarrow> iteration p m i st = st) \<and>
   requests (estimateMealNutrition p m) =
     filter (\<lambda>i. \<not> isBlank (strIngredient m i)) [1..<21] \<and>
   (list_all (\<lambda>i. isBlank (strIngredient m i)) [1..<21] \<longrightarrow>
      totals (estimateMealNutrition p m) = zeroNutrients)"
  by (simp add: iteration_blank requests_estimate totals_estimate foldl_contribution_blank
      del: upt_Suc)

theorem blank_slots_skipped_witness:
  "isBlank (strIngredient sampleMeal 3) \<and>
   iteration appleProvider sampleMeal 3 initialState = initialState \<and>
   requests (estimateMealNutrition appleProvider sampleMeal) = [1, 2, 4] \<and>
   list_all (\<lambda>i. isBlank (strIngredient emptyMeal i)) [1..<21] \<and>
   totals (estimateMealNutrition appleProvider emptyMeal) = zeroNutrients"
  using blank_slots_skipped [of sampleMeal 3 appleProvider initialState]
    blank_slots_skipped [of emptyMeal 3 appleProvider initialState]
  by (simp add: sampleMeal_def emptyMeal_def blank_eval upt_1_21 del: upt_Suc)

text \<open>
  Claim C3. A lookup that fails for one ingredient (the request is rejected, or the
  answer has no record) stays with that ingredient: the turn of the loop leaves the
  totals as they were and the loop goes on, asking the provider for every slot that
  is not blank and logging a warning for exactly the lookups that threw; the final
  totals are the contributions, added in order of the slots, of exactly the
  ingredients whose lookup gave a record; and the totals are those of the same meal
  without the failing ingredient, so with one failing lookup among 20 the totals of
  the other 19 are unchanged.
\<close>

theorem failure_isolation:
  "(lookupFails p m k \<longrightarrow>
      totals (iteration p m k st) = totals st \<and>
      totals (estimateMealNutrition p m) =
        totals (estimateMealNutrition p (m\<lparr>strIngredient := (strIngredient m)(k := None)\<rparr>))) \<and>
   totals (estimateMealNutrition p m) =
     foldl (contribution p m) zeroNutrients (filter (\<lambda>i. firstRecord p m i \<noteq> None) [1..<21]) \<and>
   requests (estimateMealNutrition p m) =
     filter (\<lambda>i. \<not> isBlank (strIngredient m i)) [1..<21] \<and>
   warnings (estimateMealNutrition p m) = filter (lookupThrows p m) [1..<21]"
proof (intro conjI impI)
  assume "lookupFails p m k"
  then have none: "firstRecord p m k = None" by (simp add: lookupFails_def)
  then show "totals (iteration p m k st) = totals st"
    by (simp add: iteration_totals contribution_none)
  show "totals (estimateMealNutrition p m) =
        totals (estimateMealNutrition p (m\<lparr>strIngredient := (strIngredient m)(k := None)\<rparr>))"
    unfolding totals_estimate contribution_without [OF none] ..
next
  show "totals (estimateMealNutrition p m) =
     foldl (contribution p m) zeroNutrients (filter (\<lambda>i. firstRecord p m i \<noteq> None) [1..<21])"
    unfolding totals_estimate foldl_contribution_filter ..
  show "requests (estimateMealNutrition p m) =
     filter (\<lambda>i. \<not> isBlank (strIngredient m i)) [1..<21]"
    by (rule requests_estimate)
  show "warnings (estimateMealNutrition p m) = filter (lookupThrows p m) [1..<21]"
    by (rule warnings_estimate)
qed

theorem failure_isolation_witness:
  "lookupFails appleProvider sampleMeal 2 \<and>
   totals (estimateMealNutrition appleProvider sampleMeal) =
     totals (estimateMealNutrition appleProvider
       (sampleMeal\<lparr>strIngredient := (strIngredient sampleMeal)(2 := None)\<rparr>)) \<and>
   filter (\<lambda>i. firstRecord appleProvider sampleMeal i \<noteq> None) [1..<21] = [1] \<and>
   warnings (estimateMealNutrition appleProvider sampleMeal) = [2]"
  using failure_isolation [of appleProvider sampleMeal 2 initialState]
  by (simp add: lookupFails_def lookupThrows_def firstRecord_def sampleMeal_def
      appleProvider_def blank_eval upt_1_21 del: upt_Suc)


section \<open>The totals never go below zero\<close>















section \<open>The normalizer on the specification's examples\<close>

text \<open>
  Claim C5. The normalizer gives 120 for \<open>1/2 cup\<close>, 30 for \<open>2 tbsp\<close>, 100 for
  the empty string, 100 for \<open>abc\<close> and 3 for \<open>3 grams\<close>.
\<close>

theorem normalizer_test_vectors:
  "estimateGramsFromMeasure (Some ''1/2 cup'') = Fin 120 \<and>
   estimateGramsFromMeasure (Some ''2 tbsp'') = Fin 30 \<and>
   estimateGramsFromMeasure (Some []) = Fin 100 \<and>
   estimateGramsFromMeasure (Some ''abc'') = Fin 100 \<and>
   estimateGramsFromMeasure (Some ''3 grams'') = Fin 3"
  by (simp add: grams_eval)


section \<open>The normalizer\<close>

lemma letter_not_quantity: "isLetter c \<Longrightarrow> \<not> isQuantityChar c"
  by (auto simp: isLetter_def isQuantityChar_def isDigit_def)

lemma letter_not_space: "isLetter c \<Longrightarrow> \<not> isWhiteSpace c"
  by (auto simp: isLetter_def isWhiteSpace_def)

lemma space_not_quantity: "isWhiteSpace c \<Longrightarrow> \<not> isQuantityChar c"
  by (auto simp: isWhiteSpace_def isQuantityChar_def isDigit_def)

text \<open>The greedy match finds a match exactly when the string has the shape.\<close>

lemma shape_iff_match: "measureShape s \<longleftrightarrow> matchMeasure s \<noteq> None"
proof
  assume "measureShape s"
  then obtain q w u rest where s: "s = q @ w @ u # rest" and q0: "q \<noteq> []"
    and q: "list_all isQuantityChar q" and w: "list_all isWhiteSpace w" and u: "isLetter u"
    unfolding measureShape_def by blast
  have tq: "takeWhile isQuantityChar s = q @ takeWhile isQuantityChar (w @ u # rest)"
    using q unfolding s by (simp add: takeWhile_append2 list_all_iff)
  have "dropWhile isQuantityChar (w @ u # rest) = w @ u # rest"
    using w u by (cases w) (simp_all add: letter_not_quantity space_not_quantity)
  then have dq: "dropWhile isQuantityChar s = w @ u # rest"
    using q unfolding s by (simp add: dropWhile_append2 list_all_iff)
  have dw: "dropWhile isWhiteSpace (w @ u # rest) = u # rest"
    using w u by (simp add: dropWhile_append2 list_all_iff letter_not_space)
  show "matchMeasure s \<noteq> None"
    using q0 u by (simp add: matchMeasure_def Let_def tq dq dw)
next
  assume "matchMeasure s \<noteq> None"
  then have a: "takeWhile isQuantityChar s \<noteq> []"
    and b: "takeWhile isLetter (dropWhile isWhiteSpace (dropWhile isQuantityChar s)) \<noteq> []"
    by (auto simp: matchMeasure_def Let_def split: if_splits)
  define q where "q = takeWhile isQuantityChar s"
  define r1 where "r1 = dropWhile isQuantityChar s"
  define w where "w = takeWhile isWhiteSpace r1"
  define r2 where "r2 = dropWhile isWhiteSpace r1"
  from b obtain u rest where r2: "r2 = u # rest" and u: "isLetter u"
    unfolding r2_def r1_def
    by (cases "dropWhile isWhiteSpace (dropWhile isQuantityChar s)") (auto split: if_splits)
  have "s = q @ r1" by (simp add: q_def r1_def)
  also have "r1 = w @ r2" by (simp add: w_def r2_def)
  finally have s: "s = q @ w @ u # rest" by (simp add: r2)
  have "list_all isQuantityChar q" "list_all isWhiteSpace w"
    by (auto simp: q_def w_def list_all_iff dest: set_takeWhileD)
  with s a u show "measureShape s"
    unfolding measureShape_def q_def [symmetric] by blast
qed

lemma matched_result:
  assumes "m \<noteq> []" "matchMeasure (toLowerCase (trim m)) = Some (q, u)"
  shows "estimateGramsFromMeasure (Some m) = jsmul (parseQuantity q) (gramsPerUnit u)"
  using assms by (simp add: estimateGramsFromMeasure_def)

lemma unmatched_result:
  assumes "matchMeasure (toLowerCase (trim m)) = None"
  shows "estimateGramsFromMeasure (Some m) = Fin 100"
  using assms by (simp add: estimateGramsFromMeasure_def)

text \<open>
  Claim C4, as the code has it. For an absent or empty measure, and for every measure
  that, trimmed and lowercased, does not begin with a non-empty run of digits, dots
  and slashes followed by white space, possibly none, and then a letter, the
  normalizer returns 100. (The claim asks for white space between the number and the
  unit; the pattern has \<^verbatim>\<open>\s*\<close> and takes \<open>3grams\<close> as well.)
\<close>

theorem unmatched_measure_defaults:
  "estimateGramsFromMeasure None = Fin 100 \<and>
   estimateGramsFromMeasure (Some []) = Fin 100 \<and>
   (\<not> measureShape (toLowerCase (trim s)) \<longrightarrow> estimateGramsFromMeasure (Some s) = Fin 100)"
proof (intro conjI impI)
  show "estimateGramsFromMeasure None = Fin 100" "estimateGramsFromMeasure (Some []) = Fin 100"
    by (simp_all add: grams_eval)
  assume "\<not> measureShape (toLowerCase (trim s))"
  then have "matchMeasure (toLowerCase (trim s)) = None"
    using shape_iff_match [of "toLowerCase (trim s)"] by blast
  then show "estimateGramsFromMeasure (Some s) = Fin 100"
    by (rule unmatched_result)
qed

theorem unmatched_measure_defaults_witness:
  "\<not> measureShape (toLowerCase (trim ''a pinch'')) \<and>
   estimateGramsFromMeasure (Some ''a pinch'') = Fin 100"
proof -
  have "\<not> measureShape (toLowerCase (trim ''a pinch''))"
    by (simp add: shape_iff_match matchMeasure_def string_eval)
  with unmatched_measure_defaults [of "''a pinch''"] show ?thesis by simp
qed

text \<open>
  Against claim C4 as stated: \<open>3grams\<close> has no white space at all, so it is not a
  number followed by white space and a unit, and the normalizer returns 3 for it,
  not 100.
\<close>

theorem measure_without_space_is_parsed:
  "filter isWhiteSpace ''3grams'' = [] \<and>
   toLowerCase (trim ''3grams'') = ''3grams'' \<and>
   estimateGramsFromMeasure (Some ''3grams'') = Fin 3 \<and>
   estimateGramsFromMeasure (Some ''3grams'') \<noteq> Fin 100"
  by (simp add: grams_eval) (simp add: string_eval)

lemma splitOn_unfold:
  "splitOn d s =
     takeWhile (\<lambda>c. c \<noteq> d) s #
       (case dropWhile (\<lambda>c. c \<noteq> d) s of [] \<Rightarrow> [] | c # r \<Rightarrow> splitOn d r)"
  by (induction s) (auto split: list.splits)

lemma splitOn_slash:
  assumes "CHR ''/'' \<in> set q"
  shows "\<exists>rest. splitOn CHR ''/'' q = numeratorToken q # denominatorToken q # rest"
proof -
  from assms have "dropWhile (\<lambda>c. c \<noteq> CHR ''/'') q \<noteq> []"
    by (simp add: dropWhile_eq_Nil_conv)
  then obtain c r where d: "dropWhile (\<lambda>c. c \<noteq> CHR ''/'') q = c # r"
    by (cases "dropWhile (\<lambda>c. c \<noteq> CHR ''/'') q") auto
  have "splitOn CHR ''/'' q = numeratorToken q # splitOn CHR ''/'' r"
    using splitOn_unfold [of "CHR ''/''" q] by (simp add: d numeratorToken_def)
  also have "splitOn CHR ''/'' r = takeWhile (\<lambda>c. c \<noteq> CHR ''/'') r #
      (case dropWhile (\<lambda>c. c \<noteq> CHR ''/'') r of [] \<Rightarrow> [] | c # r' \<Rightarrow> splitOn CHR ''/'' r')"
    by (rule splitOn_unfold)
  also have "takeWhile (\<lambda>c. c \<noteq> CHR ''/'') r = denominatorToken q"
    by (simp add: denominatorToken_def d)
  finally show ?thesis by blast
qed

lemma parseQuantity_fraction:
  assumes "CHR ''/'' \<in> set q"
  shows "parseQuantity q = jsdiv (parseFloat (numeratorToken q)) (parseFloat (denominatorToken q))"
proof -
  from splitOn_slash [OF assms] obtain rest
    where "splitOn CHR ''/'' q = numeratorToken q # denominatorToken q # rest" ..
  with assms show ?thesis by (simp add: parseQuantity_def)
qed

text \<open>
  Claim C6. When the matched quantity token contains a slash, the quantity is the
  number parsed from what stands before the first slash divided by the number parsed
  from what stands after it; when both are numbers and the denominator is not zero,
  the result is the rounded quotient times the grams per unit. A token without a
  slash is parsed as a decimal number. Nothing guards a zero denominator: \<open>1/0 cup\<close>
  gives \<open>Infinity\<close> and \<open>0/0 cup\<close> gives NaN, not the default.
\<close>

theorem quantity_of_fraction:
  "(m \<noteq> [] \<and> matchMeasure (toLowerCase (trim m)) = Some (q, u) \<longrightarrow>
      (CHR ''/'' \<in> set q \<longrightarrow>
         estimateGramsFromMeasure (Some m) =
           jsmul (jsdiv (parseFloat (numeratorToken q)) (parseFloat (denominatorToken q)))
             (gramsPerUnit u) \<and>
         (parseFloat (numeratorToken q) = Fin a \<and> parseFloat (denominatorToken q) = Fin b \<and>
          b \<noteq> 0 \<longrightarrow>
            estimateGramsFromMeasure (Some m) = jsmul (fl (a / b)) (gramsPerUnit u))) \<and>
      (CHR ''/'' \<notin> set q \<longrightarrow>
         estimateGramsFromMeasure (Some m) = jsmul (parseFloat q) (gramsPerUnit u))) \<and>
   estimateGramsFromMeasure (Some ''1/0 cup'') = PosInf \<and>
   estimateGramsFromMeasure (Some ''0/0 cup'') = NaN"
proof (intro conjI impI)
  show "estimateGramsFromMeasure (Some ''1/0 cup'') = PosInf"
    "estimateGramsFromMeasure (Some ''0/0 cup'') = NaN"
    by (simp_all add: grams_eval)
next
  assume m: "m \<noteq> [] \<and> matchMeasure (toLowerCase (trim m)) = Some (q, u)"
  then have r: "estimateGramsFromMeasure (Some m) = jsmul (parseQuantity q) (gramsPerUnit u)"
    by (simp add: matched_result)
  {
    assume "CHR ''/'' \<notin> set q"
    then show "estimateGramsFromMeasure (Some m) = jsmul (parseFloat q) (gramsPerUnit u)"
      unfolding r by (simp add: parseQuantity_def)
  }
  assume s: "CHR ''/'' \<in> set q"
  show f: "estimateGramsFromMeasure (Some m) =
           jsmul (jsdiv (parseFloat (numeratorToken q)) (parseFloat (denominatorToken q)))
             (gramsPerUnit u)"
    unfolding r parseQuantity_fraction [OF s] ..
  assume "parseFloat (numeratorToken q) = Fin a \<and> parseFloat (denominatorToken q) = Fin b \<and>
          b \<noteq> 0"
  then show "estimateGramsFromMeasure (Some m) = jsmul (fl (a / b)) (gramsPerUnit u)"
    unfolding f by simp
qed

theorem quantity_of_fraction_witness:
  "''1/2 cup'' \<noteq> [] \<and>
   matchMeasure (toLowerCase (trim ''1/2 cup'')) = Some (''1/2'', ''cup'') \<and>
   CHR ''/'' \<in> set ''1/2'' \<and>
   parseFloat (numeratorToken ''1/2'') = Fin 1 \<and>
   parseFloat (denominatorToken ''1/2'') = Fin 2 \<and> (2::real) \<noteq> 0 \<and>
   estimateGramsFromMeasure (Some ''1/2 cup'') = jsmul (fl (1 / 2)) (gramsPerUnit ''cup'') \<and>
   ''2 tbsp'' \<noteq> [] \<and>
   matchMeasure (toLowerCase (trim ''2 tbsp'')) = Some (''2'', ''tbsp'') \<and>
   CHR ''/'' \<notin> set ''2'' \<and>
   estimateGramsFromMeasure (Some ''2 tbsp'') = jsmul (parseFloat ''2'') (gramsPerUnit ''tbsp'')"
proof -
  have a: "matchMeasure (toLowerCase (trim ''1/2 cup'')) = Some (''1/2'', ''cup'')"
    "matchMeasure (toLowerCase (trim ''2 tbsp'')) = Some (''2'', ''tbsp'')"
    by (simp_all add: matchMeasure_def string_eval)
  have b: "parseFloat (numeratorToken ''1/2'') = Fin 1"
    "parseFloat (denominatorToken ''1/2'') = Fin 2"
    by (simp_all add: numeratorToken_def denominatorToken_def parse_eval)
  from quantity_of_fraction [of "''1/2 cup''" "''1/2''" "''cup''" 1 2]
    quantity_of_fraction [of "''2 tbsp''" "''2''" "''tbsp''" 1 2] a b
  show ?thesis by simp
qed

lemma unknown_unit_default:
  "map_of measureToGrams u = None \<Longrightarrow> u \<notin> set objectPrototypeKeys \<Longrightarrow>
     gramsPerUnit u = Fin 100"
  by (simp add: gramsPerUnit_def readUnit_def)

text \<open>
  Claim C8 fails on the code for the unit \<open>constructor\<close>. It is not one of the
  sixteen keys of the table, yet reading it from the table finds what every object
  inherits under that name, not \<^verbatim>\<open>undefined\<close>; the default 100 is not taken and the
  result of \<open>1 constructor\<close> is NaN, not \<open>1 \<times> 100\<close>.
\<close>

theorem inherited_unit_not_default:
  "map_of measureToGrams ''constructor'' = None \<and>
   matchMeasure (toLowerCase (trim ''1 constructor'')) = Some (''1'', ''constructor'') \<and>
   estimateGramsFromMeasure (Some ''1 constructor'') = NaN \<and>
   jsmul (parseQuantity ''1'') (Fin 100) = Fin 100"
  by (simp add: grams_eval) (simp add: measureToGrams_def parse_eval)


section \<open>The direct lookup of the specification's example\<close>

text \<open>
  Claim C9, as the code has it. With the provider's first record for \<open>apple\<close>
  carrying Energy 52, Protein 0.3, Carbohydrate 14 and fat 0.2, and 150 in the
  quantity field, the page shows \<open>78.0\<close>, \<open>0.4\<close>, \<open>21.0\<close> and \<open>0.3\<close>: each
  product is shown with one digit after the point, and the binary64 product for
  the protein lies just below 0.45.
\<close>

theorem apple_lookup_displayed:
  "calculate appleProvider ''apple'' ''150'' =
     (None, \<lparr>el_calories = Text ''78.0'', el_protein = Text ''0.4'',
             el_carbs = Text ''21.0'', el_fat = Text ''0.3''\<rparr>)"
  by (rule apple_page)

text \<open>Against claim C9 as stated: the protein shown is not \<open>0.45\<close>.\<close>

theorem apple_protein_not_shown_as_045:
  "el_protein (snd (calculate appleProvider ''apple'' ''150'')) \<noteq> Text ''0.45''"
  by (simp add: apple_page)


section \<open>Scaling\<close>

lemma js_or_number: "x \<noteq> NaN \<Longrightarrow> js_or x (Fin 0) = x"
  by (auto simp: js_or_def)

lemma jsmul_zero_finite: "isFinite k \<Longrightarrow> jsmul (Fin 0) k = Fin 0"
  by (cases k) (simp_all add: fl_zero)

lemma lastMatch_scale:
  assumes "isFinite k"
  shows "lastMatch name (map (\<lambda>n. n\<lparr>nutrientValue := jsmul (nutrientValue n) k\<rparr>) ns) =
     jsmul (lastMatch name ns) k"
proof -
  let ?f = "\<lambda>n. n\<lparr>nutrientValue := jsmul (nutrientValue n) k\<rparr>"
  have f: "filter (\<lambda>n. nutrientName n = name) (map ?f ns) =
      map ?f (filter (\<lambda>n. nutrientName n = name) ns)"
    by (simp add: filter_map o_def)
  show ?thesis
    using assms by (simp add: lastMatch_def Let_def f last_map jsmul_zero_finite)
qed

text \<open>
  Claim C1, as the code has it. On the page of the direct lookup each field shows the
  extracted value times a hundredth of the quantity, rendered with one digit after
  the point. In the loop over a meal, an ingredient whose lookup gave a record adds
  to each total the extracted value (a number) times a hundredth of the estimated
  grams. And extracting from a record whose values were all multiplied by a finite
  factor gives the extracted profile multiplied by that factor.
\<close>

theorem scaling_is_linear:
  "displayNutrients n q =
     \<lparr>el_calories = toFixed 1 (jsmul (calories n) (jsdiv q (Fin 100))),
      el_protein = toFixed 1 (jsmul (protein n) (jsdiv q (Fin 100))),
      el_carbs = toFixed 1 (jsmul (carbs n) (jsdiv q (Fin 100))),
      el_fat = toFixed 1 (jsmul (fat n) (jsdiv q (Fin 100)))\<rparr> \<and>
   (firstRecord p m i = Some item \<and> calories (extractNutrients item) \<noteq> NaN \<and>
    protein (extractNutrients item) \<noteq> NaN \<and> carbs (extractNutrients item) \<noteq> NaN \<and>
    fat (extractNutrients item) \<noteq> NaN \<longrightarrow>
      totals (iteration p m i st) =
        \<lparr>calories = jsadd (calories (totals st))
           (jsmul (calories (extractNutrients item))
              (jsdiv (estimateGramsFromMeasure (strMeasure m i)) (Fin 100))),
         protein = jsadd (protein (totals st))
           (jsmul (protein (extractNutrients item))
              (jsdiv (estimateGramsFromMeasure (strMeasure m i)) (Fin 100))),
         carbs = jsadd (carbs (totals st))
           (jsmul (carbs (extractNutrients item))
              (jsdiv (estimateGramsFromMeasure (strMeasure m i)) (Fin 100))),
         fat = jsadd (fat (totals st))
           (jsmul (fat (extractNutrients item))
              (jsdiv (estimateGramsFromMeasure (strMeasure m i)) (Fin 100)))\<rparr>) \<and>
   (isFinite k \<longrightarrow>
      extractNutrients (scaleRecord k record) = scaleNutrients k (extractNutrients record))"
proof (intro conjI impI)
  show "displayNutrients n q =
     \<lparr>el_calories = toFixed 1 (jsmul (calories n) (jsdiv q (Fin 100))),
      el_protein = toFixed 1 (jsmul (protein n) (jsdiv q (Fin 100))),
      el_carbs = toFixed 1 (jsmul (carbs n) (jsdiv q (Fin 100))),
      el_fat = toFixed 1 (jsmul (fat n) (jsdiv q (Fin 100)))\<rparr>"
    by (simp add: displayNutrients_def Let_def)
next
  assume "firstRecord p m i = Some item \<and> calories (extractNutrients item) \<noteq> NaN \<and>
    protein (extractNutrients item) \<noteq> NaN \<and> carbs (extractNutrients item) \<noteq> NaN \<and>
    fat (extractNutrients item) \<noteq> NaN"
  then show "totals (iteration p m i st) =
        \<lparr>calories = jsadd (calories (totals st))
           (jsmul (calories (extractNutrients item))
              (jsdiv (estimateGramsFromMeasure (strMeasure m i)) (Fin 100))),
         protein = jsadd (protein (totals st))
           (jsmul (protein (extractNutrients item))
              (jsdiv (estimateGramsFromMeasure (strMeasure m i)) (Fin 100))),
         carbs = jsadd (carbs (totals st))
           (jsmul (carbs (extractNutrients item))
              (jsdiv (estimateGramsFromMeasure (strMeasure m i)) (Fin 100))),
         fat = jsadd (fat (totals st))
           (jsmul (fat (extractNutrients item))
              (jsdiv (estimateGramsFromMeasure (strMeasure m i)) (Fin 100)))\<rparr>"
    by (simp add: iteration_totals contribution_def addScaled_def js_or_number)
next
  assume "isFinite k"
  then show "extractNutrients (scaleRecord k record) = scaleNutrients k (extractNutrients record)"
    by (simp add: extractNutrients_def extract_fields scaleRecord_def scaleNutrients_def
        lastMatch_scale)
qed

theorem scaling_is_linear_witness:
  "firstRecord appleProvider sampleMeal 1 = Some appleRecord \<and>
   calories (extractNutrients appleRecord) \<noteq> NaN \<and>
   protein (extractNutrients appleRecord) \<noteq> NaN \<and>
   carbs (extractNutrients appleRecord) \<noteq> NaN \<and>
   fat (extractNutrients appleRecord) \<noteq> NaN \<and>
   calories (totals (iteration appleProvider sampleMeal 1 initialState)) =
     jsadd (Fin 0) (jsmul (Fin 52) (jsdiv (Fin 120) (Fin 100))) \<and>
   isFinite (Fin (3 / 2)) \<and>
   extractNutrients (scaleRecord (Fin (3 / 2)) appleRecord) =
     scaleNutrients (Fin (3 / 2)) (extractNutrients appleRecord)"
proof -
  have r: "firstRecord appleProvider sampleMeal 1 = Some appleRecord"
    by (simp add: firstRecord_def sampleMeal_def appleProvider_def blank_eval)
  have g: "estimateGramsFromMeasure (strMeasure sampleMeal 1) = Fin 120"
    by (simp add: sampleMeal_def grams_eval)
  have z: "calories (totals initialState) = Fin 0"
    by (simp add: initialState_def zeroNutrients_def)
  from scaling_is_linear [of "extractNutrients appleRecord" "Fin 150" appleProvider sampleMeal 1
      appleRecord initialState "Fin (3 / 2)" appleRecord] r g z
  show ?thesis by (simp add: extract_apple)
qed


text \<open>
  Against claim C1 as stated: for a profile with 1 kcal per 100 g and 25 g, the scaled
  value is 0.25 and the page reports \<open>0.3\<close>; for 50 g, twice the mass, it reports
  \<open>0.5\<close>. The reported value is the rendering of the product, not the product.
\<close>

theorem display_renders_scaled_value:
  "jsmul (Fin 1) (jsdiv (Fin 25) (Fin 100)) = Fin (1 / 4) \<and>
   el_calories (displayNutrients
     \<lparr>calories = Fin 1, protein = Fin 0, carbs = Fin 0, fat = Fin 0\<rparr> (Fin 25)) = Text ''0.3'' \<and>
   el_calories (displayNutrients
     \<lparr>calories = Fin 1, protein = Fin 0, carbs = Fin 0, fat = Fin 0\<rparr> (Fin 50)) = Text ''0.5''"
proof -
  have q: "jsdiv (Fin 25) (Fin 100) = Fin (1 / 4)"
    using fl_exact [of 1 "- 2"] by (simp add: pow2_def)
  have h: "jsdiv (Fin 50) (Fin 100) = Fin (1 / 2)"
    using fl_half by simp
  have p: "jsmul (Fin 1) (Fin (1 / 4)) = Fin (1 / 4)"
    using fl_exact [of 1 "- 2"] by (simp add: pow2_def)
  have r: "jsmul (Fin 1) (Fin (1 / 2)) = Fin (1 / 2)"
    using fl_half by simp
  have t: "toFixed 1 (Fin (1 / 4)) = Text ''0.3''" "toFixed 1 (Fin (1 / 2)) = Text ''0.5''"
    by (simp_all add: fixedDigits_def natDigits.simps)
  show ?thesis
    using q h p r t by (simp add: displayNutrients_def Let_def del: toFixed.simps)
qed


end
